theory Spec2Isabelle
  imports Main "HOL-Library.Multiset"
begin

section \<open>The advanced query builder: \<open>addToQueryBox\<close>\<close>

text \<open>
  The page keeps its state in form controls. The controls that \<open>addToQueryBox\<close> reads or
  writes are the fields of \<open>query_form\<close>, named after the element ids of the source:
  \<open>searchOptions_text\<close> and \<open>searchOptions_columntype\<close> are the text and the
  \<open>data-columntype\<close> of the selected option of \<open>#searchOptions\<close>; a \<open>_hidden\<close> field is
  the presence of the class \<open>d-none\<close>, \<open>btnSearch_disabled\<close> that of \<open>disabled\<close>.
  The clicked button is passed as \<open>btnClicked\<close>: its label and its \<open>data-operator\<close>.
\<close>

record button =
  btn_text :: string
  btn_operator :: string

record query_form =
  searchValue :: string
  searchFromValue :: string
  searchToValue :: string
  searchOptions_text :: string
  searchOptions_columntype :: string
  queryBox :: string
  searchCriteria :: string
  emptySearchTerm :: string
  emptySearchTerm_hidden :: bool
  btnNot_hidden :: bool
  btnOr_hidden :: bool
  btnSearch_disabled :: bool

text \<open>
  The local variable \<open>newSearchTerm\<close>: \<open>value[field]\<close> for a field of column type
  \<open>string\<close>, \<open>from:to[field]\<close> for any other, where an empty \<open>from\<close> is replaced by the
  number 0 and an empty \<open>to\<close> by 3000 (string concatenation prints them as \<open>0\<close>, \<open>3000\<close>).
\<close>

definition newSearchTerm :: "query_form \<Rightarrow> string" where
  "newSearchTerm f =
     (let field = searchOptions_text f;
          fieldType = searchOptions_columntype f
      in if fieldType = ''string'' then searchValue f @ ''['' @ field @ '']''
         else
           let from0 = searchFromValue f;
               to0 = searchToValue f;
               from1 = (if from0 = [] then ''0'' else from0);
               to1 = (if to0 = [] then ''3000'' else to0)
           in from1 @ '':'' @ to1 @ ''['' @ field @ '']'')"

definition addToQueryBox :: "button \<Rightarrow> query_form \<Rightarrow> button \<times> query_form" where
  "addToQueryBox btnClicked f =
     (if searchValue f = [] \<and> searchFromValue f = [] \<and> searchToValue f = [] then
        (btnClicked,
         f\<lparr>emptySearchTerm := ''Please enter a value before adding to query.'',
           emptySearchTerm_hidden := False\<rparr>)
      else
        let f1 = f\<lparr>emptySearchTerm_hidden := True\<rparr>;
            operator = btn_operator btnClicked;
            reveal = (btn_text btnClicked \<noteq> ''AND'' \<and> operator = ''AND'');
            btn1 = (if reveal then btnClicked\<lparr>btn_text := ''AND''\<rparr> else btnClicked);
            f2 = (if reveal then f1\<lparr>btnNot_hidden := False, btnOr_hidden := False\<rparr> else f1);
            term = newSearchTerm f2;
            f3 = (if queryBox f2 = [] then f2\<lparr>queryBox := term\<rparr>
                  else f2\<lparr>queryBox := ''('' @ queryBox f2 @ '') '' @ operator @ '' ('' @ term @ '')''\<rparr>)
        in (btn1, f3\<lparr>searchCriteria := queryBox f3, searchValue := [], btnSearch_disabled := False\<rparr>))"

text \<open>
  A run of the builder: before each click the user fills the controls (\<open>fill\<close>) and picks a
  button; \<open>appends\<close> performs the clicks of a list of such entries in order.
\<close>

record entry =
  e_value :: string
  e_from :: string
  e_to :: string
  e_field :: string
  e_columntype :: string
  e_button :: button

definition fill :: "entry \<Rightarrow> query_form \<Rightarrow> query_form" where
  "fill e f = f\<lparr>searchValue := e_value e, searchFromValue := e_from e, searchToValue := e_to e,
                searchOptions_text := e_field e, searchOptions_columntype := e_columntype e\<rparr>"

definition append_entry :: "entry \<Rightarrow> query_form \<Rightarrow> query_form" where
  "append_entry e f = snd (addToQueryBox (e_button e) (fill e f))"

fun appends :: "query_form \<Rightarrow> entry list \<Rightarrow> query_form" where
  "appends f [] = f"
| "appends f (e # es) = appends (append_entry e f) es"

text \<open>An entry that \<open>addToQueryBox\<close> turns down: no value and no bound.\<close>

definition blank :: "entry \<Rightarrow> bool" where
  "blank e = (e_value e = [] \<and> e_from e = [] \<and> e_to e = [])"

text \<open>A start state for the examples: nothing entered, nothing built, no message shown.\<close>

definition cleared_form :: query_form where
  "cleared_form = \<lparr>searchValue = [], searchFromValue = [], searchToValue = [],
     searchOptions_text = [], searchOptions_columntype = [], queryBox = [], searchCriteria = [],
     emptySearchTerm = [], emptySearchTerm_hidden = True, btnNot_hidden = True,
     btnOr_hidden = True, btnSearch_disabled = True\<rparr>"

text \<open>The clause an entry renders to: \<open>newSearchTerm\<close> on the controls as the entry fills them.\<close>

definition clause :: "entry \<Rightarrow> string" where
  "clause e = newSearchTerm (fill e cleared_form)"

text \<open>
  The three buttons of the builder as the page shows them, and entries that fill the
  value box or the two bounds, for the examples below.
\<close>

abbreviation btnAdd :: button where
  "btnAdd \<equiv> \<lparr>btn_text = ''ADD'', btn_operator = ''AND''\<rparr>"

abbreviation btnOr :: button where
  "btnOr \<equiv> \<lparr>btn_text = ''OR'', btn_operator = ''OR''\<rparr>"

abbreviation btnNot :: button where
  "btnNot \<equiv> \<lparr>btn_text = ''NOT'', btn_operator = ''AND NOT''\<rparr>"

abbreviation text_entry :: "string \<Rightarrow> string \<Rightarrow> button \<Rightarrow> entry" where
  "text_entry v fld b \<equiv> \<lparr>e_value = v, e_from = [], e_to = [], e_field = fld,
     e_columntype = ''string'', e_button = b\<rparr>"

abbreviation range_entry :: "string \<Rightarrow> string \<Rightarrow> string \<Rightarrow> string \<Rightarrow> button \<Rightarrow> entry" where
  "range_entry v lo hi fld b \<equiv> \<lparr>e_value = v, e_from = lo, e_to = hi, e_field = fld,
     e_columntype = ''int'', e_button = b\<rparr>"

text \<open>
  Parentheses of a string: \<open>bal s n\<close> holds when \<open>s\<close>, read with \<open>n\<close> parentheses open,
  never closes one that is not open and ends with none open; \<open>paren_groups\<close> counts the
  groups a string opens.
\<close>

fun bal :: "string \<Rightarrow> nat \<Rightarrow> bool" where
  "bal [] n = (n = 0)"
| "bal (c # s) n =
     (if c = CHR ''('' then bal s (Suc n)
      else if c = CHR '')'' then (case n of 0 \<Rightarrow> False | Suc m \<Rightarrow> bal s m)
      else bal s n)"

definition balanced :: "string \<Rightarrow> bool" where
  "balanced s = bal s 0"

definition paren_groups :: "string \<Rightarrow> nat" where
  "paren_groups s = count_list s (CHR ''('')"

definition paren_free :: "string \<Rightarrow> bool" where
  "paren_free s = (CHR ''('' \<notin> set s \<and> CHR '')'' \<notin> set s)"

section \<open>Numbers read from controls\<close>

text \<open>
  The handlers read numbers out of text controls: \<open>Number(text)\<close>, or a comparison of a
  text with a number, which converts the text the same way. \<open>Number\<close> is modelled on the
  texts a count or a year box holds: the empty text is 0 and a text of decimal digits is
  its value, exactly so up to 15 digits (\<open>numeric_text\<close>); on every other text the model
  answers \<open>NaN\<close>, and the facts below that depend on a conversion ask for \<open>numeric_text\<close>.
  A comparison with \<open>NaN\<close> is false; \<open>toString\<close> prints an integer in decimal.
\<close>

datatype jsnum = NaN | Num int

definition is_digit :: "char \<Rightarrow> bool" where
  "is_digit c = (c \<in> set ''0123456789'')"

definition digit_val :: "char \<Rightarrow> int" where
  "digit_val c = int (length (takeWhile (\<lambda>d. d \<noteq> c) ''0123456789''))"

definition numeric_text :: "string \<Rightarrow> bool" where
  "numeric_text s = (list_all is_digit s \<and> length s \<le> 15)"

definition Number :: "string \<Rightarrow> jsnum" where
  "Number s = (if list_all is_digit s then Num (foldl (\<lambda>a c. 10 * a + digit_val c) 0 s) else NaN)"

fun digits :: "nat \<Rightarrow> string" where
  "digits n = (if n < 10 then [''0123456789'' ! n]
               else digits (n div 10) @ [''0123456789'' ! (n mod 10)])"

declare digits.simps [simp del]

fun toString :: "jsnum \<Rightarrow> string" where
  "toString NaN = ''NaN''"
| "toString (Num i) = (if i < 0 then ''-'' @ digits (nat (- i)) else digits (nat i))"

fun js_gt :: "jsnum \<Rightarrow> jsnum \<Rightarrow> bool" where
  "js_gt (Num a) (Num b) = (a > b)"
| "js_gt _ _ = False"

fun js_minus :: "jsnum \<Rightarrow> jsnum \<Rightarrow> jsnum" where
  "js_minus (Num a) (Num b) = Num (a - b)"
| "js_minus _ _ = NaN"

section \<open>The default filters: \<open>buildDefaultFilterCriteria\<close> and the click on \<open>.defaultFilter\<close>\<close>

text \<open>
  The handler reads the attributes of a \<open>.defaultFilter\<close> checkbox with jQuery's
  \<open>data\<close>, which hands over a string or, for the attribute texts it converts (numerals,
  \<open>true\<close>, \<open>false\<close>, \<open>null\<close>, JSON), the converted value. The conversion is the
  library's; a \<open>jsval\<close> is the value \<open>data\<close> has returned: \<open>Str s\<close> the string \<open>s\<close>, and
  \<open>Other t n\<close> any other value, given by the text \<open>t\<close> that string concatenation
  appends for it and the number \<open>n\<close> that arithmetic takes it for. The number five is
  \<open>Other ''5'' (Num 5)\<close>, the array that \<open>data\<close> parses from \<open>[1, 2]\<close> is
  \<open>Other ''1,2'' NaN\<close>. \<open>exact_number\<close> marks the values whose number the model
  holds exactly.
\<close>

datatype jsval = Str string | Other string jsnum

fun data_text :: "jsval \<Rightarrow> string" where
  "data_text (Str s) = s"
| "data_text (Other t n) = t"

fun data_number :: "jsval \<Rightarrow> jsnum" where
  "data_number (Str s) = Number s"
| "data_number (Other t n) = n"

fun exact_number :: "jsval \<Rightarrow> bool" where
  "exact_number (Str s) = numeric_text s"
| "exact_number (Other t NaN) = True"
| "exact_number (Other t (Num i)) = (\<bar>i\<bar> < 1000000000000000)"

text \<open>
  A \<open>.defaultFilter\<close> checkbox with what \<open>data\<close> returns for \<open>filterfield\<close>,
  \<open>filtertype\<close> and \<open>filtervalue\<close>; the form holds the checkboxes in document order,
  the two year boxes, the \<open>#customRange\<close> checkbox and the hidden
  \<open>#DefaultFilterCriteria\<close>.
\<close>

record defaultFilter =
  df_checked :: bool
  filterfield :: jsval
  filtertype :: jsval
  filtervalue :: jsval

record filter_form =
  defaultFilters :: "defaultFilter list"
  fromPubYear :: string
  toPubYear :: string
  customRange :: bool
  DefaultFilterCriteria :: string

text \<open>
  The body of the \<open>each\<close> loop: what one checkbox adds to \<open>defaultFilterCriteria\<close>.
  \<open>year\<close> is \<open>new Date().getFullYear()\<close>. The \<open>switch\<close> compares with \<open>===\<close>, so a
  case is taken only by the string itself.
\<close>

definition defaultFilter_each :: "int \<Rightarrow> string \<Rightarrow> defaultFilter \<Rightarrow> string" where
  "defaultFilter_each year defaultFilterCriteria d =
     (if df_checked d then
        let fldName = filterfield d in
        if fldName = Str ''year'' then
          defaultFilterCriteria @ '' BETWEEN ('' @
            toString (js_minus (Num year) (data_number (filtervalue d))) @ '':3001'' @
            ''[Pub Year])''
        else if fldName = Str ''notempty'' then
          defaultFilterCriteria @ '' NOTEMPTY (['' @ data_text (filtervalue d) @ ''])''
        else
          defaultFilterCriteria @ '' CONTAINS ('' @ data_text (filtervalue d) @ ''['' @
            data_text fldName @ ''])''
      else defaultFilterCriteria)"

definition buildDefaultFilterCriteria :: "int \<Rightarrow> filter_form \<Rightarrow> filter_form" where
  "buildDefaultFilterCriteria year f =
     (let defaultFilterCriteria = foldl (defaultFilter_each year) [] (defaultFilters f);
          fromYear = fromPubYear f;
          toYear = toPubYear f;
          defaultFilterCriteria =
            (if (fromYear \<noteq> [] \<or> toYear \<noteq> []) \<and> customRange f then
               let (fromYear, toYear) =
                     (if fromYear = [] then (''1001'', toYear)
                      else if toYear = [] then (fromYear, ''3000'')
                      else (fromYear, toYear))
               in defaultFilterCriteria @ '' BETWEEN ('' @ fromYear @ '':'' @ toYear @ ''[Pub Year])''
             else defaultFilterCriteria)
      in f\<lparr>DefaultFilterCriteria := defaultFilterCriteria\<rparr>)"

text \<open>
  The click handler: \<open>Inl\<close> is the text of the \<open>toastr.error\<close> the handler returns after,
  \<open>Inr\<close> the form after \<open>buildDefaultFilterCriteria\<close>, from which the search request is
  then built and sent.
\<close>

definition defaultFilter_click :: "int \<Rightarrow> filter_form \<Rightarrow> string + filter_form" where
  "defaultFilter_click year f =
     (let fromYear = Number (fromPubYear f);
          toYear = Number (toPubYear f)
      in if js_gt fromYear toYear then Inl ''From year must be less than to year''
         else if (js_gt fromYear (Num 0) \<and> length (toString fromYear) \<noteq> 4) \<or>
                 (js_gt toYear (Num 0) \<and> length (toString toYear) \<noteq> 4)
           then Inl ''Custom year range values must be 4 digits''
         else Inr (buildDefaultFilterCriteria year f))"

text \<open>The fragment of one filter, and the fragments of a list joined by single blanks.\<close>

definition fragment :: "int \<Rightarrow> defaultFilter \<Rightarrow> string" where
  "fragment year d =
     (if filterfield d = Str ''year'' then
        ''BETWEEN ('' @ toString (js_minus (Num year) (data_number (filtervalue d))) @
          '':3001[Pub Year])''
      else if filterfield d = Str ''notempty'' then
        ''NOTEMPTY (['' @ data_text (filtervalue d) @ ''])''
      else ''CONTAINS ('' @ data_text (filtervalue d) @ ''['' @ data_text (filterfield d) @ ''])'')"

fun join_blank :: "string list \<Rightarrow> string" where
  "join_blank [] = []"
| "join_blank [s] = s"
| "join_blank (s # t # ss) = s @ '' '' @ join_blank (t # ss)"

text \<open>
  Five filters, four of them checked, for the examples below: the values are what
  \<open>data\<close> returns for the attribute texts \<open>5\<close>, \<open>Smith\<close>, \<open>Abstract\<close>,
  \<open>Health Physics\<close> and \<open>[1, 2]\<close>.
\<close>

abbreviation sample_filters :: "defaultFilter list" where
  "sample_filters \<equiv>
     [\<lparr>df_checked = True, filterfield = Str ''year'', filtertype = Str ''int'',
        filtervalue = Other ''5'' (Num 5)\<rparr>,
      \<lparr>df_checked = False, filterfield = Str ''Author'', filtertype = Str ''string'',
        filtervalue = Str ''Smith''\<rparr>,
      \<lparr>df_checked = True, filterfield = Str ''notempty'', filtertype = Str ''string'',
        filtervalue = Str ''Abstract''\<rparr>,
      \<lparr>df_checked = True, filterfield = Str ''Journal'', filtertype = Str ''string'',
        filtervalue = Str ''Health Physics''\<rparr>,
      \<lparr>df_checked = True, filterfield = Str ''Keywords'', filtertype = Str ''string'',
        filtervalue = Other ''1,2'' NaN\<rparr>]"

section \<open>The selection: the change of \<open>.pubSelected\<close> and \<open>setSelectedPubCheckboxes\<close>\<close>

text \<open>
  The result list shows one \<open>.pubSelected\<close> checkbox for each publication: its
  \<open>data-pubid\<close> and whether it is checked. \<open>selectedPubIds\<close> is the global array.
\<close>

record 'a results =
  pubSelected :: "('a \<times> bool) list"
  selectedPubIds :: "'a list"

text \<open>\<open>Array.indexOf\<close>, with \<open>None\<close> for \<open>-1\<close>, and \<open>splice(index, 1)\<close>.\<close>

fun indexOf :: "'a list \<Rightarrow> 'a \<Rightarrow> nat option" where
  "indexOf [] x = None"
| "indexOf (y # ys) x = (if y = x then Some 0 else map_option Suc (indexOf ys x))"

definition splice1 :: "nat \<Rightarrow> 'a list \<Rightarrow> 'a list" where
  "splice1 index xs = take index xs @ drop (Suc index) xs"

text \<open>The change handler, run on a checkbox with the given id and (new) checked state.\<close>

definition pubSelected_change :: "'a \<Rightarrow> bool \<Rightarrow> 'a results \<Rightarrow> 'a results" where
  "pubSelected_change pubid checked s =
     (if checked then s\<lparr>selectedPubIds := selectedPubIds s @ [pubid]\<rparr>
      else (case indexOf (selectedPubIds s) pubid of
              None \<Rightarrow> s
            | Some index \<Rightarrow> s\<lparr>selectedPubIds := splice1 index (selectedPubIds s)\<rparr>))"

text \<open>
  A click on the \<open>k\<close>-th checkbox of the list: the browser flips the box, then runs the
  change handler on it. There is nothing to click beyond the end of the list.
\<close>

definition toggle :: "nat \<Rightarrow> 'a results \<Rightarrow> 'a results" where
  "toggle k s =
     (if k < length (pubSelected s) then
        let (pubid, checked) = pubSelected s ! k
        in pubSelected_change pubid (\<not> checked)
             (s\<lparr>pubSelected := (pubSelected s)[k := (pubid, \<not> checked)]\<rparr>)
      else s)"

definition setSelectedPubCheckboxes :: "'a results \<Rightarrow> 'a results" where
  "setSelectedPubCheckboxes s =
     s\<lparr>pubSelected :=
         map (\<lambda>(pubid, checked).
                (pubid, if indexOf (selectedPubIds s) pubid \<noteq> None then True else checked))
           (pubSelected s)\<rparr>"

text \<open>The ids of the boxes that are checked.\<close>

definition checked_ids :: "'a results \<Rightarrow> 'a list" where
  "checked_ids s = map fst (filter snd (pubSelected s))"

section \<open>Exports: \<open>createModel\<close>, \<open>createModelForExport\<close> and the two submit handlers\<close>

text \<open>
  The controls the request model is read from, under the ids of the source (\<open>c_\<close> marks
  the ones whose id names a control of another form above): \<open>c_SearchCriteria\<close> is the
  hidden \<open>#SearchCriteria\<close>, \<open>c_searchCriteria\<close> the simple search box,
  \<open>OptionSortAscending\<close> whether the sort icon carries the ascending class, and the
  \<open>Option\<close> fields of the two dialogs are the values of their selected options.
\<close>

record controls =
  advancedSearchDisplay :: bool
  c_queryBox :: string
  c_searchCriteria :: string
  c_SearchCriteria :: string
  c_PageFormat :: string
  c_CurrentPage :: string
  c_SortBy :: string
  c_NumberPerPage :: string
  c_DefaultFilterCriteria :: string
  OptionSortAscending :: bool
  selectAll :: bool
  FormatOptionForEmail :: string
  SelectionOptionForEmail :: string
  emailTo :: string
  FormatOptionForSave :: string
  SelectionOptionForSave :: string
  searchResultCount :: string

record 'a export_options =
  Type :: string
  Selection :: string
  Format :: string
  SelectedItems :: "'a list"
  EmailAddress :: "string option"

record 'a model =
  PageFormat :: string
  CurrentPage :: string
  SortBy :: string
  SearchCriteria :: string
  NumberPerPage :: string
  DefaultFilterCriteria_of :: string
  SortAscending :: bool
  SelectAllChecked :: bool
  ExportOptions :: "'a export_options option"

definition createModel :: "controls \<Rightarrow> string \<Rightarrow> 'a model" where
  "createModel c fetchPageNumber =
     (let searchType = (if advancedSearchDisplay c then ''advanced'' else ''simple'');
          searchCriteria = (if searchType = ''advanced'' then c_queryBox c else c_searchCriteria c)
      in \<lparr>PageFormat = c_PageFormat c, CurrentPage = fetchPageNumber, SortBy = c_SortBy c,
           SearchCriteria = searchCriteria, NumberPerPage = c_NumberPerPage c,
           DefaultFilterCriteria_of = c_DefaultFilterCriteria c,
           SortAscending = OptionSortAscending c, SelectAllChecked = selectAll c,
           ExportOptions = None\<rparr>)"

text \<open>\<open>None\<close> is the \<open>null\<close> the function returns after marking the size message.\<close>

definition createModelForExport ::
    "controls \<Rightarrow> 'a results \<Rightarrow> string \<Rightarrow> string \<Rightarrow> 'a model option" where
  "createModelForExport c s fetchPageNumber exportType =
     (let (format, selectionOpt, email) =
            (if exportType = ''email''
             then (FormatOptionForEmail c, SelectionOptionForEmail c, Some (emailTo c))
             else (FormatOptionForSave c, SelectionOptionForSave c, None));
          selectedIds =
            (if selectionOpt = ''allOnPage'' then map fst (pubSelected s)
             else if selectionOpt = ''selected'' then selectedPubIds s
             else [])
      in if exportType = ''email'' \<and>
            (length selectedIds > 1000 \<or>
             (selectionOpt = ''all'' \<and> js_gt (Number (searchResultCount c)) (Num 1000)))
         then None
         else if exportType \<noteq> ''email'' \<and>
            (length selectedIds > 10000 \<or>
             (selectionOpt = ''all'' \<and> js_gt (Number (searchResultCount c)) (Num 10000)))
         then None
         else
           let model = createModel c fetchPageNumber;
               model = (if SearchCriteria model = [] then model\<lparr>SearchCriteria := c_SearchCriteria c\<rparr>
                        else model)
           in Some (model\<lparr>ExportOptions :=
                 Some \<lparr>Type = exportType, Selection = selectionOpt, Format = format,
                       SelectedItems = selectedIds, EmailAddress = email\<rparr>\<rparr>))"

text \<open>
  What a submit handler ends with: the request it posts, or the message it shows before
  it returns without posting. \<open>regexForEmail\<close> stands for the test of the address
  against the pattern of the source.
\<close>

datatype export_error = emailMaxMsg | saveMaxMsg | emailToError | emailSelectError | saveSelectError

datatype 'a dispatch = Aborted export_error | Posted string "'a model"

definition the_options :: "'a model \<Rightarrow> 'a export_options" where
  "the_options m = (case ExportOptions m of Some x \<Rightarrow> x
     | None \<Rightarrow> \<lparr>Type = [], Selection = [], Format = [], SelectedItems = [], EmailAddress = None\<rparr>)"

definition submitEmail_click :: "(string \<Rightarrow> bool) \<Rightarrow> controls \<Rightarrow> 'a results \<Rightarrow> 'a dispatch" where
  "submitEmail_click regexForEmail c s =
     (case createModelForExport c s (c_CurrentPage c) ''email'' of
        None \<Rightarrow> Aborted emailMaxMsg
      | Some model \<Rightarrow>
          if \<not> regexForEmail (emailTo c) then Aborted emailToError
          else if Selection (the_options model) = ''selected'' \<and>
                  length (SelectedItems (the_options model)) = 0
            then Aborted emailSelectError
          else Posted ''/NSLSL/Search/EmailSearchResults'' model)"

definition submitSave_click :: "controls \<Rightarrow> 'a results \<Rightarrow> 'a dispatch" where
  "submitSave_click c s =
     (case createModelForExport c s (c_CurrentPage c) ''save'' of
        None \<Rightarrow> Aborted saveMaxMsg
      | Some model \<Rightarrow>
          if Selection (the_options model) = ''selected'' \<and>
             length (SelectedItems (the_options model)) = 0
            then Aborted saveSelectError
          else Posted ''/NSLSL/Search/DownloadSearchResults'' model)"

text \<open>The controls of both dialogs with the given selection options and result count.\<close>

abbreviation dialogs :: "string \<Rightarrow> string \<Rightarrow> string \<Rightarrow> controls" where
  "dialogs emailSelection saveSelection resultCount \<equiv>
     \<lparr>advancedSearchDisplay = True, c_queryBox = ''x[fieldA]'', c_searchCriteria = ''x[fieldA]'',
      c_SearchCriteria = [], c_PageFormat = ''summary'', c_CurrentPage = ''1'', c_SortBy = ''Year'',
      c_NumberPerPage = ''25'', c_DefaultFilterCriteria = [], OptionSortAscending = True,
      selectAll = False, FormatOptionForEmail = ''csv'', SelectionOptionForEmail = emailSelection,
      emailTo = ''reader@example.org'', FormatOptionForSave = ''xls'',
      SelectionOptionForSave = saveSelection, searchResultCount = resultCount\<rparr>"

section \<open>Facts\<close>

subsection \<open>The query builder\<close>

lemma queryBox_addToQueryBox:
  "\<not> (searchValue f = [] \<and> searchFromValue f = [] \<and> searchToValue f = []) \<Longrightarrow>
   queryBox (snd (addToQueryBox b f)) =
     (if queryBox f = [] then newSearchTerm f
      else ''('' @ queryBox f @ '') '' @ btn_operator b @ '' ('' @ newSearchTerm f @ '')'')"
  by (auto simp add: addToQueryBox_def Let_def newSearchTerm_def)

lemma bal_append: "bal s n \<Longrightarrow> bal t m \<Longrightarrow> bal (s @ t) (n + m)"
proof (induction s arbitrary: n)
  case Nil
  then show ?case by simp
next
  case (Cons c s)
  show ?case
  proof (cases "c = CHR '')''")
    case True
    with Cons.prems obtain k where k: "n = Suc k" "bal s k"
      by (cases n) auto
    from Cons.IH [OF k(2) Cons.prems(2)] True k(1) show ?thesis by simp
  next
    case False
    show ?thesis
    proof (cases "c = CHR ''(''")
      case True
      with Cons.prems have "bal s (Suc n)" by simp
      from Cons.IH [OF this Cons.prems(2)] True show ?thesis by simp
    next
      case no: False
      with False Cons.prems have "bal s n" by simp
      from Cons.IH [OF this Cons.prems(2)] False no show ?thesis by simp
    qed
  qed
qed

lemma balanced_append: "balanced s \<Longrightarrow> balanced t \<Longrightarrow> balanced (s @ t)"
  using bal_append [of s 0 t 0] by (simp add: balanced_def)

lemma bal_wrap: "bal s 0 \<Longrightarrow> bal (s @ '')'') (Suc 0)"
proof -
  assume s: "bal s 0"
  have "bal '')'' (Suc 0)" by simp
  from bal_append [OF s this] show ?thesis by simp
qed

lemma balanced_wrap: "balanced s \<Longrightarrow> balanced (''('' @ s @ '')'')"
  by (simp add: balanced_def bal_wrap)

lemma paren_free_balanced: "paren_free s \<Longrightarrow> bal s n = (n = 0)"
  by (induction s arbitrary: n) (auto simp: paren_free_def)

lemma queryBox_append_entry:
  "\<not> blank e \<Longrightarrow>
   queryBox (append_entry e f) =
     (if queryBox f = [] then clause e
      else ''('' @ queryBox f @ '') '' @ btn_operator (e_button e) @ '' ('' @ clause e @ '')'')"
  by (simp add: append_entry_def queryBox_addToQueryBox blank_def fill_def clause_def newSearchTerm_def Let_def cleared_form_def)

lemma clause_nonempty: "clause e \<noteq> []"
  by (simp add: clause_def newSearchTerm_def fill_def Let_def cleared_form_def)

lemma appends_snoc: "appends f (es @ [e]) = append_entry e (appends f es)"
  by (induction es arbitrary: f) auto

lemma queryBox_appends_nonempty:
  "es \<noteq> [] \<Longrightarrow> \<forall>e \<in> set es. \<not> blank e \<Longrightarrow> queryBox (appends f es) \<noteq> []"
  by (induction es rule: rev_induct) (auto simp: appends_snoc queryBox_append_entry clause_nonempty)


lemma paren_groups_append: "paren_groups (s @ t) = paren_groups s + paren_groups t"
  by (induction s) (auto simp: paren_groups_def)

lemma paren_free_append: "paren_free (s @ t) = (paren_free s \<and> paren_free t)"
  by (auto simp: paren_free_def)

lemma paren_free_opening: "paren_free s \<Longrightarrow> count_list s (CHR ''('') = 0"
  by (induction s) (auto simp: paren_free_def)

lemma paren_free_closing: "paren_free s \<Longrightarrow> count_list s (CHR '')'') = 0"
  by (induction s) (auto simp: paren_free_def)

lemma balanced_composite:
  assumes "balanced q" "balanced opr" "balanced c"
  shows "balanced (''('' @ q @ '') '' @ opr @ '' ('' @ c @ '')'')"
proof -
  have sp: "balanced '' ''" by (simp add: balanced_def)
  have "balanced ((''('' @ q @ '')'') @ '' '' @ opr @ '' '' @ (''('' @ c @ '')''))"
    by (intro balanced_append balanced_wrap assms sp)
  then show ?thesis by simp
qed

lemma balanced_appends:
  assumes "queryBox f = []" "es \<noteq> []" "\<forall>e \<in> set es. \<not> blank e"
    and "\<forall>e \<in> set es. balanced (clause e) \<and> balanced (btn_operator (e_button e))"
  shows "balanced (queryBox (appends f es))"
  using assms(2-)
proof (induction es rule: rev_induct)
  case Nil
  then show ?case by simp
next
  case (snoc e es)
  show ?case
  proof (cases "es = []")
    case True
    with snoc.prems assms(1) show ?thesis
      by (simp add: queryBox_append_entry)
  next
    case False
    with snoc have "balanced (queryBox (appends f es))" and "queryBox (appends f es) \<noteq> []"
      by (auto simp: queryBox_appends_nonempty)
    from snoc.prems this(2)
    have eq: "queryBox (appends f (es @ [e])) =
        ''('' @ queryBox (appends f es) @ '') '' @ btn_operator (e_button e) @ '' ('' @ clause e @ '')''"
      by (simp add: appends_snoc queryBox_append_entry)
    from snoc.prems \<open>balanced (queryBox (appends f es))\<close> show ?thesis
      unfolding eq by (intro balanced_composite) auto
  qed
qed

lemma count_appends:
  assumes "queryBox f = []" "es \<noteq> []" "\<forall>e \<in> set es. \<not> blank e"
    and "\<forall>e \<in> set es. paren_free (clause e) \<and> paren_free (btn_operator (e_button e))"
  shows "paren_groups (queryBox (appends f es)) = 2 * (length es - 1) \<and>
         count_list (queryBox (appends f es)) (CHR '')'') = 2 * (length es - 1)"
  using assms(2-)
proof (induction es rule: rev_induct)
  case Nil
  then show ?case by simp
next
  case (snoc e es)
  show ?case
  proof (cases "es = []")
    case True
    with snoc.prems assms(1) show ?thesis
      by (simp add: queryBox_append_entry paren_groups_def paren_free_opening paren_free_closing)
  next
    case False
    with snoc have ih: "count_list (queryBox (appends f es)) (CHR ''('') = 2 * (length es - 1)"
        "count_list (queryBox (appends f es)) (CHR '')'') = 2 * (length es - 1)"
      and ne: "queryBox (appends f es) \<noteq> []"
      by (auto simp: queryBox_appends_nonempty paren_groups_def)
    from False have len: "length es - 1 + 1 = length es" by (cases es) auto
    from snoc.prems ih ne len show ?thesis
      by (simp add: appends_snoc queryBox_append_entry paren_groups_def
          paren_free_opening paren_free_closing)
  qed
qed

text \<open>
  Claim C2, as the code has it. Take a run of \<open>n \<ge> 1\<close> accepted appends from an empty
  query box. The first append leaves its clause alone in the box, with no parentheses
  added. If every rendered clause and every operator has balanced parentheses, so has
  the result. If they contain no parenthesis at all, the result opens exactly
  \<open>2 * (n - 1)\<close> groups and closes as many: two for each append beyond the first.
\<close>

theorem appends_parentheses:
  assumes "queryBox f = []" "es \<noteq> []" "\<forall>e \<in> set es. \<not> blank e"
  shows "queryBox (appends f [hd es]) = clause (hd es) \<and>
    ((\<forall>e \<in> set es. balanced (clause e) \<and> balanced (btn_operator (e_button e))) \<longrightarrow>
       balanced (queryBox (appends f es))) \<and>
    ((\<forall>e \<in> set es. paren_free (clause e) \<and> paren_free (btn_operator (e_button e))) \<longrightarrow>
       paren_groups (queryBox (appends f es)) = 2 * (length es - 1) \<and>
       count_list (queryBox (appends f es)) (CHR '')'') = 2 * (length es - 1))"
proof -
  from assms have "\<not> blank (hd es)" by (cases es) auto
  with assms(1) have "queryBox (appends f [hd es]) = clause (hd es)"
    by (simp add: queryBox_append_entry)
  with balanced_appends [OF assms] count_appends [OF assms] show ?thesis by blast
qed

lemmas run_defs = append_entry_def addToQueryBox_def fill_def cleared_form_def newSearchTerm_def
  Let_def blank_def clause_def

text \<open>Three appends: a text clause, a second one under OR, a range clause under AND NOT.\<close>

theorem appends_parentheses_witness:
  "\<not> blank (text_entry ''x'' ''fieldA'' btnAdd) \<and>
   \<not> blank (text_entry ''y'' ''fieldB'' btnOr) \<and>
   \<not> blank (range_entry ''stale'' [] [] ''Pub Year'' btnNot) \<and>
   queryBox (appends cleared_form [text_entry ''x'' ''fieldA'' btnAdd]) = ''x[fieldA]'' \<and>
   queryBox (appends cleared_form [text_entry ''x'' ''fieldA'' btnAdd,
     text_entry ''y'' ''fieldB'' btnOr, range_entry ''stale'' [] [] ''Pub Year'' btnNot]) =
     ''((x[fieldA]) OR (y[fieldB])) AND NOT (0:3000[Pub Year])'' \<and>
   balanced (queryBox (appends cleared_form [text_entry ''x'' ''fieldA'' btnAdd,
     text_entry ''y'' ''fieldB'' btnOr, range_entry ''stale'' [] [] ''Pub Year'' btnNot])) \<and>
   paren_groups (queryBox (appends cleared_form [text_entry ''x'' ''fieldA'' btnAdd,
     text_entry ''y'' ''fieldB'' btnOr, range_entry ''stale'' [] [] ''Pub Year'' btnNot])) = 4"
proof -
  let ?es = "[text_entry ''x'' ''fieldA'' btnAdd,
     text_entry ''y'' ''fieldB'' btnOr, range_entry ''stale'' [] [] ''Pub Year'' btnNot]"
  have h1: "queryBox cleared_form = []" by (simp add: cleared_form_def)
  have h2: "?es \<noteq> []" by simp
  have h3: "\<forall>e \<in> set ?es. \<not> blank e" by (simp add: blank_def)
  have h4: "\<forall>e \<in> set ?es. paren_free (clause e) \<and> paren_free (btn_operator (e_button e))"
    by (simp add: run_defs paren_free_def)
  have h5: "\<forall>e \<in> set ?es. balanced (clause e) \<and> balanced (btn_operator (e_button e))"
    by (simp add: run_defs balanced_def)
  have q: "queryBox (appends cleared_form ?es) =
     ''((x[fieldA]) OR (y[fieldB])) AND NOT (0:3000[Pub Year])''"
    by (simp add: run_defs)
  from appends_parentheses [OF h1 h2 h3] h4 h5 h3 q show ?thesis
    by (simp add: clause_def fill_def cleared_form_def newSearchTerm_def)
qed

text \<open>
  Two appends give two groups, not \<open>(2 - 1) - 1 = 0\<close>; and a value that holds a
  parenthesis goes into the box as it is, so the result need not be balanced.
\<close>

theorem appends_parentheses_counterexample:
  "queryBox (appends cleared_form [text_entry ''x'' ''fieldA'' btnAdd,
      text_entry ''y'' ''fieldB'' btnOr]) = ''(x[fieldA]) OR (y[fieldB])'' \<and>
   int (paren_groups (queryBox (appends cleared_form [text_entry ''x'' ''fieldA'' btnAdd,
      text_entry ''y'' ''fieldB'' btnOr]))) \<noteq>
     (int (length [text_entry ''x'' ''fieldA'' btnAdd, text_entry ''y'' ''fieldB'' btnOr]) - 1) - 1 \<and>
   \<not> blank (text_entry ''('' ''fieldA'' btnAdd) \<and>
   queryBox (appends cleared_form [text_entry ''('' ''fieldA'' btnAdd]) = ''([fieldA]'' \<and>
   \<not> balanced (queryBox (appends cleared_form [text_entry ''('' ''fieldA'' btnAdd]))"
  by (simp add: run_defs paren_groups_def balanced_def)

text \<open>
  Claim C1. Whenever \<open>addToQueryBox\<close> accepts the input, the new query box is the
  clause alone if the box was empty (the operator plays no part), and otherwise
  \<open>(\<close> old box \<open>) \<close> operator \<open> (\<close> clause \<open>)\<close>; the search box gets the same text.
  The two examples of the specification come out as \<open>(x[fieldA]) OR (y[fieldB])\<close> and
  \<open>x[fieldA]\<close>.
\<close>

theorem addToQueryBox_renders:
  "(\<not> (searchValue f = [] \<and> searchFromValue f = [] \<and> searchToValue f = []) \<longrightarrow>
      queryBox (snd (addToQueryBox b f)) =
        (if queryBox f = [] then newSearchTerm f
         else ''('' @ queryBox f @ '') '' @ btn_operator b @ '' ('' @ newSearchTerm f @ '')'') \<and>
      searchCriteria (snd (addToQueryBox b f)) = queryBox (snd (addToQueryBox b f))) \<and>
   queryBox (snd (addToQueryBox btnOr
      (cleared_form\<lparr>queryBox := ''x[fieldA]'', searchValue := ''y'',
         searchOptions_text := ''fieldB'', searchOptions_columntype := ''string''\<rparr>))) =
     ''(x[fieldA]) OR (y[fieldB])'' \<and>
   queryBox (snd (addToQueryBox btnAdd
      (cleared_form\<lparr>searchValue := ''x'',
         searchOptions_text := ''fieldA'', searchOptions_columntype := ''string''\<rparr>))) =
     ''x[fieldA]''"
  by (auto simp add: addToQueryBox_def Let_def newSearchTerm_def cleared_form_def)

theorem addToQueryBox_renders_witness:
  "searchValue (cleared_form\<lparr>queryBox := ''x[fieldA]'', searchValue := ''y'',
         searchOptions_text := ''fieldB'', searchOptions_columntype := ''int'',
         searchFromValue := ''1990''\<rparr>) \<noteq> [] \<and>
   queryBox (snd (addToQueryBox btnNot
      (cleared_form\<lparr>queryBox := ''x[fieldA]'', searchValue := ''y'',
         searchOptions_text := ''fieldB'', searchOptions_columntype := ''int'',
         searchFromValue := ''1990''\<rparr>))) = ''(x[fieldA]) AND NOT (1990:3000[fieldB])'' \<and>
   searchCriteria (snd (addToQueryBox btnNot
      (cleared_form\<lparr>queryBox := ''x[fieldA]'', searchValue := ''y'',
         searchOptions_text := ''fieldB'', searchOptions_columntype := ''int'',
         searchFromValue := ''1990''\<rparr>))) = ''(x[fieldA]) AND NOT (1990:3000[fieldB])''"
proof -
  let ?f = "cleared_form\<lparr>queryBox := ''x[fieldA]'', searchValue := ''y'',
         searchOptions_text := ''fieldB'', searchOptions_columntype := ''int'',
         searchFromValue := ''1990''\<rparr>"
  have g: "\<not> (searchValue ?f = [] \<and> searchFromValue ?f = [] \<and> searchToValue ?f = [])"
    by (simp add: cleared_form_def)
  from addToQueryBox_renders [of ?f btnNot] g
  have "queryBox (snd (addToQueryBox btnNot ?f)) =
        (if queryBox ?f = [] then newSearchTerm ?f
         else ''('' @ queryBox ?f @ '') '' @ btn_operator btnNot @ '' ('' @ newSearchTerm ?f @ '')'')"
    and "searchCriteria (snd (addToQueryBox btnNot ?f)) = queryBox (snd (addToQueryBox btnNot ?f))"
    by blast+
  then show ?thesis
    by (simp add: cleared_form_def newSearchTerm_def)
qed

text \<open>
  With a range field, both bounds empty and the value box empty too, nothing is
  rendered: the append is turned down and the query box stays as it was.
\<close>

theorem range_bounds_default_counterexample:
  "searchOptions_columntype (cleared_form\<lparr>searchOptions_text := ''Pub Year'',
      searchOptions_columntype := ''int''\<rparr>) \<noteq> ''string'' \<and>
   searchFromValue (cleared_form\<lparr>searchOptions_text := ''Pub Year'',
      searchOptions_columntype := ''int''\<rparr>) = [] \<and>
   searchToValue (cleared_form\<lparr>searchOptions_text := ''Pub Year'',
      searchOptions_columntype := ''int''\<rparr>) = [] \<and>
   queryBox (snd (addToQueryBox btnAdd (cleared_form\<lparr>searchOptions_text := ''Pub Year'',
      searchOptions_columntype := ''int''\<rparr>))) = [] \<and>
   queryBox (snd (addToQueryBox btnAdd (cleared_form\<lparr>searchOptions_text := ''Pub Year'',
      searchOptions_columntype := ''int''\<rparr>))) \<noteq> ''0:3000[Pub Year]'' \<and>
   emptySearchTerm (snd (addToQueryBox btnAdd (cleared_form\<lparr>searchOptions_text := ''Pub Year'',
      searchOptions_columntype := ''int''\<rparr>))) = ''Please enter a value before adding to query.''"
  by (simp add: addToQueryBox_def cleared_form_def)

text \<open>
  Claim C6, as the code has it. For a field whose column type is not \<open>string\<close> the
  clause is \<open>from:to[field]\<close> with \<open>0\<close> for an empty \<open>from\<close> and \<open>3000\<close> for an empty
  \<open>to\<close>, so \<open>0:3000[field]\<close> when both are empty. Such a clause reaches the query box
  only if the value box is not empty; if it is empty as well, the append is turned down
  and the query box is left as it was.
\<close>

theorem range_bounds_default:
  assumes "searchOptions_columntype f \<noteq> ''string''"
  shows "newSearchTerm f =
      (if searchFromValue f = [] then ''0'' else searchFromValue f) @ '':'' @
      (if searchToValue f = [] then ''3000'' else searchToValue f) @
      ''['' @ searchOptions_text f @ '']'' \<and>
    (searchFromValue f = [] \<and> searchToValue f = [] \<longrightarrow>
       newSearchTerm f = ''0:3000['' @ searchOptions_text f @ '']'' \<and>
       (searchValue f \<noteq> [] \<and> queryBox f = [] \<longrightarrow>
          queryBox (snd (addToQueryBox b f)) = ''0:3000['' @ searchOptions_text f @ '']'') \<and>
       (searchValue f = [] \<longrightarrow> queryBox (snd (addToQueryBox b f)) = queryBox f))"
  using assms by (auto simp add: addToQueryBox_def Let_def newSearchTerm_def)

theorem range_bounds_default_witness:
  "searchOptions_columntype (cleared_form\<lparr>searchValue := ''stale'',
      searchOptions_text := ''Pub Year'', searchOptions_columntype := ''int''\<rparr>) \<noteq> ''string'' \<and>
   queryBox (snd (addToQueryBox btnAdd (cleared_form\<lparr>searchValue := ''stale'',
      searchOptions_text := ''Pub Year'', searchOptions_columntype := ''int''\<rparr>))) =
     ''0:3000[Pub Year]''"
proof -
  let ?f = "cleared_form\<lparr>searchValue := ''stale'',
      searchOptions_text := ''Pub Year'', searchOptions_columntype := ''int''\<rparr>"
  have h: "searchOptions_columntype ?f \<noteq> ''string''" by (simp add: cleared_form_def)
  have "searchFromValue ?f = [] \<and> searchToValue ?f = []"
    and "searchValue ?f \<noteq> [] \<and> queryBox ?f = []"
    by (simp_all add: cleared_form_def)
  with range_bounds_default [OF h, of btnAdd]
  have "queryBox (snd (addToQueryBox btnAdd ?f)) = ''0:3000['' @ searchOptions_text ?f @ '']''"
    by blast
  with h show ?thesis by (simp add: cleared_form_def)
qed

text \<open>
  Claim C7. With an empty value and no bound, \<open>addToQueryBox\<close> shows the message
  \<open>Please enter a value before adding to query.\<close> and returns: the clicked button and
  every control but the message are as before, the query box and the search box among
  them. This holds for a field of any column type, \<open>string\<close> included.
\<close>

theorem empty_term_rejected:
  assumes "searchValue f = []" "searchFromValue f = []" "searchToValue f = []"
  shows "addToQueryBox b f =
      (b, f\<lparr>emptySearchTerm := ''Please enter a value before adding to query.'',
            emptySearchTerm_hidden := False\<rparr>) \<and>
    queryBox (snd (addToQueryBox b f)) = queryBox f \<and>
    searchCriteria (snd (addToQueryBox b f)) = searchCriteria f"
  using assms by (simp add: addToQueryBox_def)

theorem empty_term_rejected_witness:
  "searchOptions_columntype (cleared_form\<lparr>queryBox := ''x[fieldA]'', searchCriteria := ''x[fieldA]'',
      searchOptions_text := ''fieldB'', searchOptions_columntype := ''string''\<rparr>) = ''string'' \<and>
   queryBox (snd (addToQueryBox btnOr (cleared_form\<lparr>queryBox := ''x[fieldA]'',
      searchCriteria := ''x[fieldA]'', searchOptions_text := ''fieldB'',
      searchOptions_columntype := ''string''\<rparr>))) = ''x[fieldA]'' \<and>
   emptySearchTerm (snd (addToQueryBox btnOr (cleared_form\<lparr>queryBox := ''x[fieldA]'',
      searchCriteria := ''x[fieldA]'', searchOptions_text := ''fieldB'',
      searchOptions_columntype := ''string''\<rparr>))) = ''Please enter a value before adding to query.'' \<and>
   \<not> emptySearchTerm_hidden (snd (addToQueryBox btnOr (cleared_form\<lparr>queryBox := ''x[fieldA]'',
      searchCriteria := ''x[fieldA]'', searchOptions_text := ''fieldB'',
      searchOptions_columntype := ''string''\<rparr>)))"
proof -
  let ?f = "cleared_form\<lparr>queryBox := ''x[fieldA]'', searchCriteria := ''x[fieldA]'',
      searchOptions_text := ''fieldB'', searchOptions_columntype := ''string''\<rparr>"
  have h: "searchValue ?f = []" "searchFromValue ?f = []" "searchToValue ?f = []"
    by (simp_all add: cleared_form_def)
  from empty_term_rejected [OF h, of btnOr] show ?thesis
    by (simp add: cleared_form_def)
qed

subsection \<open>Numbers and year texts\<close>

lemma foldl_digits_nonneg: "0 \<le> acc \<Longrightarrow> 0 \<le> foldl (\<lambda>a c. 10 * a + digit_val c) acc s"
  by (induction s arbitrary: acc) (auto simp: digit_val_def)

lemma Number_nonneg: "Number s = Num a \<Longrightarrow> 0 \<le> a"
  using foldl_digits_nonneg [of 0 s] by (auto simp: Number_def split: if_splits)

lemma Number_empty: "Number [] = Num 0"
  by (simp add: Number_def)

lemma length_digits_pos: "1 \<le> length (digits n)"
  by (subst digits.simps) simp

lemma length_digits_step: "10 \<le> n \<Longrightarrow> length (digits n) = Suc (length (digits (n div 10)))"
  by (subst digits.simps) simp

lemma length_digits_small: "n < 10 \<Longrightarrow> length (digits n) = 1"
  by (subst digits.simps) simp

lemma length_digits_4: "length (digits n) = 4 \<longleftrightarrow> 1000 \<le> n \<and> n < 10000"
proof -
  consider "n < 10" | "10 \<le> n" "n < 100" | "100 \<le> n" "n < 1000" | "1000 \<le> n" "n < 10000"
    | "10000 \<le> n" by linarith
  then show ?thesis
  proof cases
    case 1
    then show ?thesis by (simp add: length_digits_small)
  next
    case 2
    then have "n div 10 < 10" by simp
    with 2 show ?thesis by (simp add: length_digits_step length_digits_small)
  next
    case 3
    then have "10 \<le> n div 10" "n div 10 div 10 < 10" by simp_all
    with 3 show ?thesis by (simp add: length_digits_step length_digits_small)
  next
    case 4
    then have "10 \<le> n div 10" "10 \<le> n div 10 div 10" "n div 10 div 10 div 10 < 10" by simp_all
    with 4 show ?thesis by (simp add: length_digits_step length_digits_small)
  next
    case 5
    then have "10 \<le> n div 10" "10 \<le> n div 10 div 10" "10 \<le> n div 10 div 10 div 10" 
      "10 \<le> n" by simp_all
    then have "length (digits n) = 4 + length (digits (n div 10 div 10 div 10 div 10))"
      by (simp add: length_digits_step)
    with length_digits_pos [of "n div 10 div 10 div 10 div 10"] 5 show ?thesis by linarith
  qed
qed

lemma length_toString_4:
  "0 \<le> a \<Longrightarrow> length (toString (Num a)) = 4 \<longleftrightarrow> 1000 \<le> a \<and> a \<le> 9999"
  using length_digits_4 [of "nat a"] by auto


subsection \<open>The default filters\<close>

lemma foldl_defaultFilter_each:
  "foldl (defaultFilter_each year) acc ds =
     acc @ concat (map (\<lambda>d. '' '' @ fragment year d) (filter df_checked ds))"
  by (induction ds arbitrary: acc) (auto simp: defaultFilter_each_def fragment_def Let_def)

lemma concat_join_blank:
  "concat (map (\<lambda>s. '' '' @ s) ss) = (if ss = [] then [] else '' '' @ join_blank ss)"
  by (induction ss rule: join_blank.induct) auto

lemma DefaultFilterCriteria_build:
  "DefaultFilterCriteria (buildDefaultFilterCriteria year f) =
     concat (map (\<lambda>d. '' '' @ fragment year d) (filter df_checked (defaultFilters f))) @
     (if (fromPubYear f \<noteq> [] \<or> toPubYear f \<noteq> []) \<and> customRange f
      then '' BETWEEN ('' @ (if fromPubYear f = [] then ''1001'' else fromPubYear f) @ '':'' @
             (if toPubYear f = [] then ''3000'' else toPubYear f) @ ''[Pub Year])''
      else [])"
  by (auto simp: buildDefaultFilterCriteria_def foldl_defaultFilter_each Let_def)

lemmas filter_defs = buildDefaultFilterCriteria_def defaultFilter_each_def defaultFilter_click_def
  Number_def is_digit_def digit_val_def digits.simps Let_def

text \<open>
  One checked filter: its fragment arrives behind a blank, which joining the fragments
  with blanks does not give.
\<close>

theorem default_filters_composed_counterexample:
  "DefaultFilterCriteria (buildDefaultFilterCriteria 2024
      \<lparr>defaultFilters = [\<lparr>df_checked = True, filterfield = Str ''Author'',
         filtertype = Str ''string'', filtervalue = Str ''Smith''\<rparr>],
       fromPubYear = [], toPubYear = [], customRange = False, DefaultFilterCriteria = []\<rparr>) =
     '' CONTAINS (Smith[Author])'' \<and>
   join_blank [''CONTAINS (Smith[Author])''] = ''CONTAINS (Smith[Author])'' \<and>
   DefaultFilterCriteria (buildDefaultFilterCriteria 2024
      \<lparr>defaultFilters = [\<lparr>df_checked = True, filterfield = Str ''Author'',
         filtertype = Str ''string'', filtervalue = Str ''Smith''\<rparr>],
       fromPubYear = [], toPubYear = [], customRange = False, DefaultFilterCriteria = []\<rparr>) \<noteq>
     join_blank [''CONTAINS (Smith[Author])'']"
  by (simp add: filter_defs)

text \<open>
  Claim C4, as the code has it. Each checked filter contributes a blank and its
  fragment, in document order, with nothing else between them: the criteria are a blank
  followed by the fragments joined by single blanks (and after them the custom range, if
  one applies). The field and the value of a filter are what \<open>data\<close> returns, written
  as string concatenation writes them. The fragment of a filter whose field is \<open>year\<close>
  and whose value is the number \<open>N\<close> is \<open>BETWEEN (\<close>\<open>year - N\<close>\<open>:3001[Pub Year])\<close>, that
  of a filter whose field is \<open>notempty\<close> is \<open>NOTEMPTY ([\<close>value\<open>])\<close>, that of any
  other is \<open>CONTAINS (\<close>value\<open>[\<close>field\<open>])\<close>.
\<close>

theorem default_filters_composed:
  "DefaultFilterCriteria (buildDefaultFilterCriteria year f) =
      concat (map (\<lambda>d. '' '' @ fragment year d) (filter df_checked (defaultFilters f))) @
      (if (fromPubYear f \<noteq> [] \<or> toPubYear f \<noteq> []) \<and> customRange f
       then '' BETWEEN ('' @ (if fromPubYear f = [] then ''1001'' else fromPubYear f) @ '':'' @
              (if toPubYear f = [] then ''3000'' else toPubYear f) @ ''[Pub Year])''
       else []) \<and>
   concat (map (\<lambda>d. '' '' @ fragment year d) (filter df_checked (defaultFilters f))) =
      (if filter df_checked (defaultFilters f) = [] then []
       else '' '' @ join_blank (map (fragment year) (filter df_checked (defaultFilters f)))) \<and>
   (\<forall>d \<in> set (defaultFilters f). \<forall>n.
      (filterfield d = Str ''year'' \<and> exact_number (filtervalue d) \<and>
        data_number (filtervalue d) = Num n \<and> \<bar>year\<bar> < 1000000 \<longrightarrow>
         fragment year d = ''BETWEEN ('' @ toString (Num (year - n)) @ '':3001[Pub Year])'') \<and>
      (filterfield d = Str ''notempty'' \<longrightarrow>
         fragment year d = ''NOTEMPTY (['' @ data_text (filtervalue d) @ ''])'') \<and>
      (filterfield d \<noteq> Str ''year'' \<and> filterfield d \<noteq> Str ''notempty'' \<longrightarrow>
         fragment year d =
           ''CONTAINS ('' @ data_text (filtervalue d) @ ''['' @ data_text (filterfield d) @ ''])''))"
proof -
  have "concat (map (\<lambda>d. '' '' @ fragment year d) (filter df_checked (defaultFilters f))) =
      concat (map (\<lambda>s. '' '' @ s) (map (fragment year) (filter df_checked (defaultFilters f))))"
    by (simp add: comp_def)
  then have joined:
    "concat (map (\<lambda>d. '' '' @ fragment year d) (filter df_checked (defaultFilters f))) =
      (if filter df_checked (defaultFilters f) = [] then []
       else '' '' @ join_blank (map (fragment year) (filter df_checked (defaultFilters f))))"
    by (simp only: concat_join_blank map_is_Nil_conv)
  have frag: "\<forall>d \<in> set (defaultFilters f). \<forall>n.
      (filterfield d = Str ''year'' \<and> exact_number (filtervalue d) \<and>
        data_number (filtervalue d) = Num n \<and> \<bar>year\<bar> < 1000000 \<longrightarrow>
         fragment year d = ''BETWEEN ('' @ toString (Num (year - n)) @ '':3001[Pub Year])'') \<and>
      (filterfield d = Str ''notempty'' \<longrightarrow>
         fragment year d = ''NOTEMPTY (['' @ data_text (filtervalue d) @ ''])'') \<and>
      (filterfield d \<noteq> Str ''year'' \<and> filterfield d \<noteq> Str ''notempty'' \<longrightarrow>
         fragment year d =
           ''CONTAINS ('' @ data_text (filtervalue d) @ ''['' @ data_text (filterfield d) @ ''])'')"
    by (simp add: fragment_def)
  from DefaultFilterCriteria_build [of year f] joined frag show ?thesis by blast
qed

text \<open>
  The sample filters in 2024: the year filter, two string values and the value parsed
  from \<open>[1, 2]\<close>, which is written \<open>1,2\<close>.
\<close>

theorem default_filters_composed_witness:
  "DefaultFilterCriteria (buildDefaultFilterCriteria 2024
      \<lparr>defaultFilters = sample_filters, fromPubYear = [], toPubYear = [], customRange = False,
        DefaultFilterCriteria = []\<rparr>) =
     '' BETWEEN (2019:3001[Pub Year]) NOTEMPTY ([Abstract]) CONTAINS (Health Physics[Journal]) CONTAINS (1,2[Keywords])''"
proof -
  let ?f = "\<lparr>defaultFilters = sample_filters, fromPubYear = [], toPubYear = [],
        customRange = False, DefaultFilterCriteria = []\<rparr>"
  let ?year = "\<lparr>df_checked = True, filterfield = Str ''year'', filtertype = Str ''int'',
        filtervalue = Other ''5'' (Num 5)\<rparr>"
  let ?abstract = "\<lparr>df_checked = True, filterfield = Str ''notempty'',
        filtertype = Str ''string'', filtervalue = Str ''Abstract''\<rparr>"
  let ?journal = "\<lparr>df_checked = True, filterfield = Str ''Journal'',
        filtertype = Str ''string'', filtervalue = Str ''Health Physics''\<rparr>"
  let ?keywords = "\<lparr>df_checked = True, filterfield = Str ''Keywords'',
        filtertype = Str ''string'', filtervalue = Other ''1,2'' NaN\<rparr>"
  have five: "filterfield ?year = Str ''year'' \<and> exact_number (filtervalue ?year) \<and>
      data_number (filtervalue ?year) = Num 5 \<and> \<bar>2024::int\<bar> < 1000000"
    by simp
  from default_filters_composed [of 2024 ?f]
  have crit: "DefaultFilterCriteria (buildDefaultFilterCriteria 2024 ?f) =
      '' '' @ join_blank (map (fragment 2024) (filter df_checked (defaultFilters ?f)))"
    and frag: "\<forall>d \<in> set (defaultFilters ?f). \<forall>n.
      (filterfield d = Str ''year'' \<and> exact_number (filtervalue d) \<and>
        data_number (filtervalue d) = Num n \<and> \<bar>2024::int\<bar> < 1000000 \<longrightarrow>
         fragment 2024 d = ''BETWEEN ('' @ toString (Num (2024 - n)) @ '':3001[Pub Year])'') \<and>
      (filterfield d = Str ''notempty'' \<longrightarrow>
         fragment 2024 d = ''NOTEMPTY (['' @ data_text (filtervalue d) @ ''])'') \<and>
      (filterfield d \<noteq> Str ''year'' \<and> filterfield d \<noteq> Str ''notempty'' \<longrightarrow>
         fragment 2024 d =
           ''CONTAINS ('' @ data_text (filtervalue d) @ ''['' @ data_text (filterfield d) @ ''])'')"
    by simp_all
  from frag five
  have y: "fragment 2024 ?year = ''BETWEEN ('' @ toString (Num (2024 - 5)) @ '':3001[Pub Year])''"
    by simp
  from frag have others:
    "fragment 2024 ?abstract = ''NOTEMPTY ([Abstract])''"
    "fragment 2024 ?journal = ''CONTAINS (Health Physics[Journal])''"
    "fragment 2024 ?keywords = ''CONTAINS (1,2[Keywords])''"
    by simp_all
  from crit y others show ?thesis
    by (simp add: digits.simps)
qed

text \<open>
  The click on digit texts. Let the two year boxes hold numeric texts with values \<open>a\<close>
  and \<open>b\<close>. The handler ends on \<open>From year must be less than to year\<close> when
  \<open>a > b\<close>, on \<open>Custom year range values must be 4 digits\<close> when a value above 0 is
  not between 1000 and 9999, and composes otherwise. When a bound is given and the
  custom range is ticked, composing appends \<open>BETWEEN (from:to[Pub Year])\<close> with
  \<open>1001\<close> for an empty \<open>from\<close> and \<open>3000\<close> for an empty \<open>to\<close>.
\<close>

lemma defaultFilter_click_digit_texts:
  assumes "numeric_text (fromPubYear f)" "numeric_text (toPubYear f)"
    and "Number (fromPubYear f) = Num a" "Number (toPubYear f) = Num b"
  shows "(a > b \<longrightarrow> defaultFilter_click year f = Inl ''From year must be less than to year'') \<and>
    (a \<le> b \<and> ((0 < a \<and> \<not> (1000 \<le> a \<and> a \<le> 9999)) \<or> (0 < b \<and> \<not> (1000 \<le> b \<and> b \<le> 9999))) \<longrightarrow>
       defaultFilter_click year f = Inl ''Custom year range values must be 4 digits'') \<and>
    (a \<le> b \<and> (a = 0 \<or> (1000 \<le> a \<and> a \<le> 9999)) \<and> (b = 0 \<or> (1000 \<le> b \<and> b \<le> 9999)) \<longrightarrow>
       defaultFilter_click year f = Inr (buildDefaultFilterCriteria year f)) \<and>
    ((fromPubYear f \<noteq> [] \<or> toPubYear f \<noteq> []) \<and> customRange f \<longrightarrow>
       DefaultFilterCriteria (buildDefaultFilterCriteria year f) =
         foldl (defaultFilter_each year) [] (defaultFilters f) @
         '' BETWEEN ('' @ (if fromPubYear f = [] then ''1001'' else fromPubYear f) @ '':'' @
           (if toPubYear f = [] then ''3000'' else toPubYear f) @ ''[Pub Year])'')"
proof -
  from assms(3,4) have nn: "0 \<le> a" "0 \<le> b" by (auto dest: Number_nonneg)
  have len: "length (toString (Num a)) = 4 \<longleftrightarrow> 1000 \<le> a \<and> a \<le> 9999"
    "length (toString (Num b)) = 4 \<longleftrightarrow> 1000 \<le> b \<and> b \<le> 9999"
    using nn by (simp_all only: length_toString_4)
  have 1: "a > b \<longrightarrow> defaultFilter_click year f = Inl ''From year must be less than to year''"
    using assms(3,4) by (simp add: defaultFilter_click_def)
  have 2: "a \<le> b \<and> ((0 < a \<and> \<not> (1000 \<le> a \<and> a \<le> 9999)) \<or> (0 < b \<and> \<not> (1000 \<le> b \<and> b \<le> 9999))) \<longrightarrow>
       defaultFilter_click year f = Inl ''Custom year range values must be 4 digits''"
    using assms(3,4) len by (auto simp add: defaultFilter_click_def simp del: toString.simps)
  have 3: "a \<le> b \<and> (a = 0 \<or> (1000 \<le> a \<and> a \<le> 9999)) \<and> (b = 0 \<or> (1000 \<le> b \<and> b \<le> 9999)) \<longrightarrow>
       defaultFilter_click year f = Inr (buildDefaultFilterCriteria year f)"
    using assms(3,4) len by (auto simp add: defaultFilter_click_def simp del: toString.simps)
  have 4: "(fromPubYear f \<noteq> [] \<or> toPubYear f \<noteq> []) \<and> customRange f \<longrightarrow>
       DefaultFilterCriteria (buildDefaultFilterCriteria year f) =
         foldl (defaultFilter_each year) [] (defaultFilters f) @
         '' BETWEEN ('' @ (if fromPubYear f = [] then ''1001'' else fromPubYear f) @ '':'' @
           (if toPubYear f = [] then ''3000'' else toPubYear f) @ ''[Pub Year])''"
    by (auto simp: buildDefaultFilterCriteria_def Let_def)
  from 1 2 3 4 show ?thesis by blast
qed

lemma defaultFilter_click_examples:
  "defaultFilter_click 2024 \<lparr>defaultFilters = [], fromPubYear = ''1999'', toPubYear = ''1998'',
      customRange = True, DefaultFilterCriteria = ''old''\<rparr> =
     Inl ''From year must be less than to year'' \<and>
   defaultFilter_click 2024 \<lparr>defaultFilters = [], fromPubYear = ''199'', toPubYear = ''1998'',
      customRange = True, DefaultFilterCriteria = ''old''\<rparr> =
     Inl ''Custom year range values must be 4 digits'' \<and>
   defaultFilter_click 2024 \<lparr>defaultFilters = [], fromPubYear = [], toPubYear = ''1998'',
      customRange = True, DefaultFilterCriteria = ''old''\<rparr> =
     Inr \<lparr>defaultFilters = [], fromPubYear = [], toPubYear = ''1998'',
      customRange = True, DefaultFilterCriteria = '' BETWEEN (1001:1998[Pub Year])''\<rparr>"
proof -
  let ?f1 = "\<lparr>defaultFilters = [], fromPubYear = ''1999'', toPubYear = ''1998'',
      customRange = True, DefaultFilterCriteria = ''old''\<rparr>"
  let ?f2 = "\<lparr>defaultFilters = [], fromPubYear = ''199'', toPubYear = ''1998'',
      customRange = True, DefaultFilterCriteria = ''old''\<rparr>"
  let ?f3 = "\<lparr>defaultFilters = [], fromPubYear = [], toPubYear = ''1998'',
      customRange = True, DefaultFilterCriteria = ''old''\<rparr>"
  have n1: "numeric_text (fromPubYear ?f1)" "numeric_text (toPubYear ?f1)"
    "Number (fromPubYear ?f1) = Num 1999" "Number (toPubYear ?f1) = Num 1998"
    by (simp_all add: numeric_text_def Number_def is_digit_def digit_val_def)
  have n2: "numeric_text (fromPubYear ?f2)" "numeric_text (toPubYear ?f2)"
    "Number (fromPubYear ?f2) = Num 199" "Number (toPubYear ?f2) = Num 1998"
    by (simp_all add: numeric_text_def Number_def is_digit_def digit_val_def)
  have n3: "numeric_text (fromPubYear ?f3)" "numeric_text (toPubYear ?f3)"
    "Number (fromPubYear ?f3) = Num 0" "Number (toPubYear ?f3) = Num 1998"
    by (simp_all add: numeric_text_def Number_def is_digit_def digit_val_def)
  have a: "defaultFilter_click 2024 ?f1 = Inl ''From year must be less than to year''"
    using defaultFilter_click_digit_texts [OF n1, of 2024] by simp
  have b: "defaultFilter_click 2024 ?f2 = Inl ''Custom year range values must be 4 digits''"
    using defaultFilter_click_digit_texts [OF n2, of 2024] by simp
  have c: "defaultFilter_click 2024 ?f3 = Inr (buildDefaultFilterCriteria 2024 ?f3)"
    using defaultFilter_click_digit_texts [OF n3, of 2024] by simp
  have d: "DefaultFilterCriteria (buildDefaultFilterCriteria 2024 ?f3) =
      '' BETWEEN (1001:1998[Pub Year])''"
    using defaultFilter_click_digit_texts [OF n3, of 2024] by simp
  have e: "buildDefaultFilterCriteria 2024 ?f3 = ?f3\<lparr>DefaultFilterCriteria :=
      DefaultFilterCriteria (buildDefaultFilterCriteria 2024 ?f3)\<rparr>"
    by (simp add: buildDefaultFilterCriteria_def Let_def)
  from a b c d e show ?thesis by simp
qed

text \<open>
  Claim C5 has the click fail, and nothing composed, whenever a supplied bound does not
  have four digits; the message of the handler says the same. The code at a \<open>from\<close> of
  \<open>0\<close>, a bound of one digit, with \<open>to\<close> 1999 and the custom range ticked: no
  message, and the criteria are composed with \<open>0:1999\<close>.
\<close>

theorem custom_range_typed_zero_composes:
  "length ''0'' \<noteq> 4 \<and>
   defaultFilter_click 2024 \<lparr>defaultFilters = [], fromPubYear = ''0'', toPubYear = ''1999'',
      customRange = True, DefaultFilterCriteria = []\<rparr> =
     Inr \<lparr>defaultFilters = [], fromPubYear = ''0'', toPubYear = ''1999'',
      customRange = True, DefaultFilterCriteria = '' BETWEEN (0:1999[Pub Year])''\<rparr>"
  by (simp add: filter_defs)

text \<open>
  Claim C10. An empty bound is read as the number 0. So with a \<open>from\<close> of value above
  0 and an empty \<open>to\<close> the click is turned down with the message about the order of
  the years, and whenever the click of such a \<open>from\<close> goes on to compose, \<open>to\<close> is not
  empty: composing never puts \<open>3000\<close> in its place.
\<close>

theorem missing_to_rejected:
  assumes "numeric_text (fromPubYear f)" "Number (fromPubYear f) = Num a" "0 < a"
  shows "Number [] = Num 0 \<and>
    (toPubYear f = [] \<longrightarrow>
       defaultFilter_click year f = Inl ''From year must be less than to year'') \<and>
    (\<forall>g. defaultFilter_click year f = Inr g \<longrightarrow> toPubYear f \<noteq> [])"
proof -
  have "toPubYear f = [] \<longrightarrow>
       defaultFilter_click year f = Inl ''From year must be less than to year''"
    using assms by (simp add: defaultFilter_click_def Number_empty)
  then show ?thesis by (auto simp: Number_empty)
qed

text \<open>
  From 1999 with no \<open>to\<close>: the click is turned down, though composing alone would have
  written \<open>1999:3000\<close>.
\<close>

theorem missing_to_rejected_witness:
  "defaultFilter_click 2024 \<lparr>defaultFilters = [], fromPubYear = ''1999'', toPubYear = [],
      customRange = True, DefaultFilterCriteria = ''old''\<rparr> =
     Inl ''From year must be less than to year'' \<and>
   DefaultFilterCriteria (buildDefaultFilterCriteria 2024 \<lparr>defaultFilters = [],
      fromPubYear = ''1999'', toPubYear = [], customRange = True,
      DefaultFilterCriteria = ''old''\<rparr>) = '' BETWEEN (1999:3000[Pub Year])''"
proof -
  let ?f = "\<lparr>defaultFilters = [], fromPubYear = ''1999'', toPubYear = [],
      customRange = True, DefaultFilterCriteria = ''old''\<rparr>"
  have n: "numeric_text (fromPubYear ?f)" "Number (fromPubYear ?f) = Num 1999" "0 < (1999::int)"
    by (simp_all add: numeric_text_def Number_def is_digit_def digit_val_def)
  have "defaultFilter_click 2024 ?f = Inl ''From year must be less than to year''"
    using missing_to_rejected [OF n, of 2024] by simp
  moreover have "DefaultFilterCriteria (buildDefaultFilterCriteria 2024 ?f) =
      '' BETWEEN (1999:3000[Pub Year])''"
    by (simp add: buildDefaultFilterCriteria_def Let_def)
  ultimately show ?thesis by simp
qed

subsection \<open>The selection\<close>

lemma indexOf_None: "indexOf xs x = None \<longleftrightarrow> x \<notin> set xs"
  by (induction xs) auto

lemma splice1_indexOf: "indexOf xs x = Some i \<Longrightarrow> splice1 i xs = remove1 x xs"
  by (induction xs arbitrary: i) (auto simp: splice1_def split: if_splits)

lemma pubSelected_change_unchecked:
  "pubSelected_change pubid False s = s\<lparr>selectedPubIds := remove1 pubid (selectedPubIds s)\<rparr>"
proof (cases "indexOf (selectedPubIds s) pubid")
  case None
  then have "pubid \<notin> set (selectedPubIds s)" by (simp add: indexOf_None)
  with None show ?thesis by (simp add: pubSelected_change_def remove1_idem)
next
  case (Some i)
  then show ?thesis by (simp add: pubSelected_change_def splice1_indexOf)
qed

lemma toggle_at:
  "k < length (pubSelected s) \<Longrightarrow> pubSelected s ! k = (pubid, checked) \<Longrightarrow>
   toggle k s =
     \<lparr>pubSelected = (pubSelected s)[k := (pubid, \<not> checked)],
      selectedPubIds = (if checked then remove1 pubid (selectedPubIds s)
                        else selectedPubIds s @ [pubid])\<rparr>"
  by (cases checked) (simp_all add: toggle_def pubSelected_change_unchecked, simp_all add: pubSelected_change_def)

lemma set_remove1_insert: "x \<in> set xs \<Longrightarrow> insert x (set (remove1 x xs)) = set xs"
  by (induction xs) auto

lemma mset_remove1_add: "x \<in> set xs \<Longrightarrow> add_mset x (mset (remove1 x xs)) = mset xs"
  by (induction xs) auto

lemma toggle_keeps_sync:
  assumes "k < length (pubSelected s)" "pubSelected s ! k = (pubid, checked)"
    and "checked = (pubid \<in> set (selectedPubIds s))" "distinct (selectedPubIds s)"
  shows "pubSelected (toggle k s) ! k = (pubid, pubid \<in> set (selectedPubIds (toggle k s))) \<and>
    distinct (selectedPubIds (toggle k s))"
  using assms by (auto simp: toggle_at)

text \<open>
  A box that is checked while its id is not in the array (the array is emptied when the
  display options are set, whatever becomes of the boxes): the first click removes
  nothing, the second adds the id, and the selection has grown.
\<close>

theorem toggle_twice_counterexample:
  "pubSelected \<lparr>pubSelected = [(7::nat, True)], selectedPubIds = []\<rparr> ! 0 = (7, True) \<and>
   selectedPubIds (toggle 0 \<lparr>pubSelected = [(7::nat, True)], selectedPubIds = []\<rparr>) = [] \<and>
   selectedPubIds (toggle 0 (toggle 0
     \<lparr>pubSelected = [(7::nat, True)], selectedPubIds = []\<rparr>)) = [7] \<and>
   set (selectedPubIds (toggle 0 (toggle 0
     \<lparr>pubSelected = [(7::nat, True)], selectedPubIds = []\<rparr>))) \<noteq>
     set (selectedPubIds \<lparr>pubSelected = [(7::nat, True)], selectedPubIds = []\<rparr>)"
  by (simp add: toggle_def pubSelected_change_def)

text \<open>
  Claim C8, as the code has it. The handler follows the box, not the array: it adds the
  id when the box has become checked and removes its first occurrence when the box has
  become unchecked. Take a checkbox that agrees with the array: checked exactly when its id
  is in \<open>selectedPubIds\<close>. One click adds the id at the end if it was absent and
  removes its first occurrence if it was present (the only one, when the array has no
  duplicates). Two clicks leave every checkbox as it was and the same ids selected: the
  same array if the id was absent, the same ids with the same multiplicities otherwise.
\<close>

theorem toggle_twice:
  assumes "k < length (pubSelected s)" "pubSelected s ! k = (pubid, checked)"
    and "checked = (pubid \<in> set (selectedPubIds s))"
  shows "set (selectedPubIds (toggle k (toggle k s))) = set (selectedPubIds s) \<and>
    pubSelected (toggle k (toggle k s)) = pubSelected s \<and>
    (pubid \<notin> set (selectedPubIds s) \<longrightarrow>
       selectedPubIds (toggle k s) = selectedPubIds s @ [pubid] \<and>
       selectedPubIds (toggle k (toggle k s)) = selectedPubIds s) \<and>
    (pubid \<in> set (selectedPubIds s) \<longrightarrow>
       selectedPubIds (toggle k s) = remove1 pubid (selectedPubIds s) \<and>
       mset (selectedPubIds (toggle k (toggle k s))) = mset (selectedPubIds s) \<and>
       (distinct (selectedPubIds s) \<longrightarrow>
          set (selectedPubIds (toggle k s)) = set (selectedPubIds s) - {pubid}))"
proof -
  let ?s1 = "toggle k s"
  have s1: "?s1 = \<lparr>pubSelected = (pubSelected s)[k := (pubid, \<not> checked)],
      selectedPubIds = (if checked then remove1 pubid (selectedPubIds s)
                        else selectedPubIds s @ [pubid])\<rparr>"
    using assms(1,2) by (rule toggle_at)
  have k1: "k < length (pubSelected ?s1)" "pubSelected ?s1 ! k = (pubid, \<not> checked)"
    using assms(1) by (simp_all add: s1)
  have s2: "toggle k ?s1 = \<lparr>pubSelected = (pubSelected s)[k := (pubid, checked)],
      selectedPubIds = (if checked then remove1 pubid (selectedPubIds s) @ [pubid]
                        else remove1 pubid (selectedPubIds s @ [pubid]))\<rparr>"
    unfolding toggle_at [OF k1] by (simp add: s1)
  have boxes: "(pubSelected s)[k := (pubid, checked)] = pubSelected s"
    using assms(1,2) by (metis list_update_id)
  have ids1: "selectedPubIds ?s1 = (if checked then remove1 pubid (selectedPubIds s)
                        else selectedPubIds s @ [pubid])"
    by (simp add: s1)
  have ids2: "selectedPubIds (toggle k ?s1) =
      (if checked then remove1 pubid (selectedPubIds s) @ [pubid]
       else remove1 pubid (selectedPubIds s @ [pubid]))"
    by (simp add: s2)
  have boxes2: "pubSelected (toggle k ?s1) = pubSelected s"
    by (simp add: s2 boxes)
  show ?thesis
  proof (cases checked)
    case True
    with assms(3) have "pubid \<in> set (selectedPubIds s)" by simp
    with True show ?thesis
      by (simp add: ids1 ids2 boxes2 set_remove1_insert mset_remove1_add)
  next
    case False
    with assms(3) have "pubid \<notin> set (selectedPubIds s)" by simp
    with False show ?thesis
      by (simp add: ids1 ids2 boxes2 remove1_append remove1_idem)
  qed
qed

theorem toggle_twice_witness:
  "toggle 0 \<lparr>pubSelected = [(7::nat, True), (9, False)], selectedPubIds = [7, 4]\<rparr> =
     \<lparr>pubSelected = [(7, False), (9, False)], selectedPubIds = [4]\<rparr> \<and>
   set (selectedPubIds (toggle 0 (toggle 0
     \<lparr>pubSelected = [(7::nat, True), (9, False)], selectedPubIds = [7, 4]\<rparr>))) = {7, 4} \<and>
   selectedPubIds (toggle 1 (toggle 1
     \<lparr>pubSelected = [(7::nat, True), (9, False)], selectedPubIds = [7, 4]\<rparr>)) = [7, 4]"
proof -
  let ?s = "\<lparr>pubSelected = [(7::nat, True), (9, False)], selectedPubIds = [7, 4]\<rparr>"
  have a: "0 < length (pubSelected ?s)" "pubSelected ?s ! 0 = (7, True)"
    "True = (7 \<in> set (selectedPubIds ?s))" by simp_all
  have b: "1 < length (pubSelected ?s)" "pubSelected ?s ! 1 = (9, False)"
    "False = (9 \<in> set (selectedPubIds ?s))" by simp_all
  have "set (selectedPubIds (toggle 0 (toggle 0 ?s))) = set (selectedPubIds ?s)"
    using toggle_twice [OF a] by blast
  moreover have "selectedPubIds (toggle 1 (toggle 1 ?s)) = selectedPubIds ?s"
    using toggle_twice [OF b] by simp
  moreover have "toggle 0 ?s = \<lparr>pubSelected = [(7, False), (9, False)], selectedPubIds = [4]\<rparr>"
    by (simp add: toggle_def pubSelected_change_def splice1_def)
  ultimately show ?thesis by simp
qed

lemma setSelected_box:
  "map (\<lambda>(pubid, checked). (pubid, if indexOf ids pubid \<noteq> None then True else checked)) bs =
   map (\<lambda>b. (fst b, snd b \<or> fst b \<in> set ids)) bs"
  by (induction bs) (auto simp: indexOf_None)

text \<open>
  Claim C9. \<open>setSelectedPubCheckboxes\<close> leaves \<open>selectedPubIds\<close> and the ids of the
  boxes as they are; a box is checked afterwards exactly if it was checked before or its
  id is selected. On a list that arrives unchecked, the checked ids are therefore the
  visible ids that are selected, in the order of the list, and never an id that is not
  visible.
\<close>

theorem setSelectedPubCheckboxes_marks:
  "selectedPubIds (setSelectedPubCheckboxes s) = selectedPubIds s \<and>
   map fst (pubSelected (setSelectedPubCheckboxes s)) = map fst (pubSelected s) \<and>
   (\<forall>k < length (pubSelected s).
      snd (pubSelected (setSelectedPubCheckboxes s) ! k) =
        (snd (pubSelected s ! k) \<or> fst (pubSelected s ! k) \<in> set (selectedPubIds s))) \<and>
   ((\<forall>b \<in> set (pubSelected s). \<not> snd b) \<longrightarrow>
      checked_ids (setSelectedPubCheckboxes s) =
        filter (\<lambda>pubid. pubid \<in> set (selectedPubIds s)) (map fst (pubSelected s))) \<and>
   set (checked_ids (setSelectedPubCheckboxes s)) \<subseteq> fst ` set (pubSelected s)"
proof -
  have eq: "setSelectedPubCheckboxes s =
      s\<lparr>pubSelected := map (\<lambda>b. (fst b, snd b \<or> fst b \<in> set (selectedPubIds s))) (pubSelected s)\<rparr>"
    by (simp only: setSelectedPubCheckboxes_def setSelected_box)
  have fresh: "(\<forall>b \<in> set bs. \<not> snd b) \<Longrightarrow>
      map fst (filter snd (map (\<lambda>b. (fst b, snd b \<or> fst b \<in> set ids)) bs)) =
      filter (\<lambda>pubid. pubid \<in> set ids) (map fst bs)" for bs :: "('a \<times> bool) list" and ids
    by (induction bs) auto
  have sub: "set (map fst (filter snd (map (\<lambda>b. (fst b, snd b \<or> fst b \<in> set ids)) bs))) \<subseteq>
      fst ` set bs" for bs :: "('a \<times> bool) list" and ids
    by (induction bs) auto
  have nth: "\<forall>k < length (pubSelected s).
      snd (map (\<lambda>b. (fst b, snd b \<or> fst b \<in> set (selectedPubIds s))) (pubSelected s) ! k) =
        (snd (pubSelected s ! k) \<or> fst (pubSelected s ! k) \<in> set (selectedPubIds s))"
    by simp
  show ?thesis
    unfolding eq using fresh [of "pubSelected s" "selectedPubIds s"]
      sub [of "selectedPubIds s" "pubSelected s"] nth
    by (simp add: checked_ids_def comp_def)
qed

theorem setSelectedPubCheckboxes_marks_witness:
  "setSelectedPubCheckboxes
     \<lparr>pubSelected = [(1::nat, False), (2, False), (3, False)], selectedPubIds = [2, 7, 1]\<rparr> =
     \<lparr>pubSelected = [(1, True), (2, True), (3, False)], selectedPubIds = [2, 7, 1]\<rparr> \<and>
   checked_ids (setSelectedPubCheckboxes
     \<lparr>pubSelected = [(1::nat, False), (2, False), (3, False)], selectedPubIds = [2, 7, 1]\<rparr>) =
     [1, 2]"
proof -
  let ?s = "\<lparr>pubSelected = [(1::nat, False), (2, False), (3, False)], selectedPubIds = [2, 7, 1]\<rparr>"
  have h: "\<forall>b \<in> set (pubSelected ?s). \<not> snd b" by simp
  from setSelectedPubCheckboxes_marks [of ?s] h
  have "checked_ids (setSelectedPubCheckboxes ?s) =
        filter (\<lambda>pubid. pubid \<in> set (selectedPubIds ?s)) (map fst (pubSelected ?s))"
    by blast
  moreover have "setSelectedPubCheckboxes ?s =
     \<lparr>pubSelected = [(1, True), (2, True), (3, False)], selectedPubIds = [2, 7, 1]\<rparr>"
    by (simp add: setSelectedPubCheckboxes_def)
  ultimately show ?thesis by simp
qed

subsection \<open>Exports\<close>

lemma createModelForExport_email_all:
  "SelectionOptionForEmail c = ''all'' \<Longrightarrow>
   createModelForExport c s p ''email'' = None \<longleftrightarrow> js_gt (Number (searchResultCount c)) (Num 1000)"
  by (simp add: createModelForExport_def Let_def)

lemma createModelForExport_save_all:
  "SelectionOptionForSave c = ''all'' \<Longrightarrow>
   createModelForExport c s p ''save'' = None \<longleftrightarrow> js_gt (Number (searchResultCount c)) (Num 10000)"
  by (simp add: createModelForExport_def Let_def)

lemma createModelForExport_selected_empty:
  assumes "selectedPubIds s = []"
  shows "SelectionOptionForEmail c = ''selected'' \<Longrightarrow>
      \<exists>m. createModelForExport c s p ''email'' = Some m \<and>
        Selection (the_options m) = ''selected'' \<and> SelectedItems (the_options m) = []"
    and "SelectionOptionForSave c = ''selected'' \<Longrightarrow>
      \<exists>m. createModelForExport c s p ''save'' = Some m \<and>
        Selection (the_options m) = ''selected'' \<and> SelectedItems (the_options m) = []"
  using assms by (simp_all add: createModelForExport_def Let_def the_options_def)

text \<open>
  Claim C3. Neither handler posts, and each ends on its message, when the option is
  \<open>all\<close> and the result count is above 1000 (email) or above 10000 (save), and when
  the option is \<open>selected\<close> and nothing is selected (for an email, after the message
  about the address if that is malformed). With option \<open>all\<close> and a count of 900 the
  email is not stopped by its ceiling.
\<close>

theorem export_requests_rejected:
  "(SelectionOptionForEmail c = ''all'' \<and> numeric_text (searchResultCount c) \<and>
      Number (searchResultCount c) = Num n \<and> 1000 < n \<longrightarrow>
        submitEmail_click regexForEmail c s = Aborted emailMaxMsg) \<and>
   (SelectionOptionForSave c = ''all'' \<and> numeric_text (searchResultCount c) \<and>
      Number (searchResultCount c) = Num n \<and> 10000 < n \<longrightarrow>
        submitSave_click c s = Aborted saveMaxMsg) \<and>
   (SelectionOptionForEmail c = ''selected'' \<and> selectedPubIds s = [] \<longrightarrow>
        submitEmail_click regexForEmail c s =
          (if regexForEmail (emailTo c) then Aborted emailSelectError else Aborted emailToError)) \<and>
   (SelectionOptionForSave c = ''selected'' \<and> selectedPubIds s = [] \<longrightarrow>
        submitSave_click c s = Aborted saveSelectError) \<and>
   (SelectionOptionForEmail c = ''all'' \<and> searchResultCount c = ''900'' \<longrightarrow>
        createModelForExport c s (c_CurrentPage c) ''email'' \<noteq> None \<and>
        submitEmail_click regexForEmail c s \<noteq> Aborted emailMaxMsg)"
proof -
  have 1: "SelectionOptionForEmail c = ''all'' \<and> numeric_text (searchResultCount c) \<and>
      Number (searchResultCount c) = Num n \<and> 1000 < n \<longrightarrow>
        submitEmail_click regexForEmail c s = Aborted emailMaxMsg"
  proof (intro impI, elim conjE)
    assume "SelectionOptionForEmail c = ''all''" "Number (searchResultCount c) = Num n" "1000 < n"
    then have "createModelForExport c s (c_CurrentPage c) ''email'' = None"
      by (simp add: createModelForExport_email_all)
    then show "submitEmail_click regexForEmail c s = Aborted emailMaxMsg"
      by (simp add: submitEmail_click_def)
  qed
  have 2: "SelectionOptionForSave c = ''all'' \<and> numeric_text (searchResultCount c) \<and>
      Number (searchResultCount c) = Num n \<and> 10000 < n \<longrightarrow>
        submitSave_click c s = Aborted saveMaxMsg"
  proof (intro impI, elim conjE)
    assume "SelectionOptionForSave c = ''all''" "Number (searchResultCount c) = Num n" "10000 < n"
    then have "createModelForExport c s (c_CurrentPage c) ''save'' = None"
      by (simp add: createModelForExport_save_all)
    then show "submitSave_click c s = Aborted saveMaxMsg"
      by (simp add: submitSave_click_def)
  qed
  have 3: "SelectionOptionForEmail c = ''selected'' \<and> selectedPubIds s = [] \<longrightarrow>
        submitEmail_click regexForEmail c s =
          (if regexForEmail (emailTo c) then Aborted emailSelectError else Aborted emailToError)"
    using createModelForExport_selected_empty(1) [of s c "c_CurrentPage c"]
    by (auto simp: submitEmail_click_def)
  have 4: "SelectionOptionForSave c = ''selected'' \<and> selectedPubIds s = [] \<longrightarrow>
        submitSave_click c s = Aborted saveSelectError"
    using createModelForExport_selected_empty(2) [of s c "c_CurrentPage c"]
    by (auto simp: submitSave_click_def)
  have n900: "Number ''900'' = Num 900"
    by (simp add: Number_def is_digit_def digit_val_def)
  have 5: "SelectionOptionForEmail c = ''all'' \<and> searchResultCount c = ''900'' \<longrightarrow>
        createModelForExport c s (c_CurrentPage c) ''email'' \<noteq> None \<and>
        submitEmail_click regexForEmail c s \<noteq> Aborted emailMaxMsg"
    by (auto simp: submitEmail_click_def createModelForExport_email_all n900 split: option.splits)
  from 1 2 3 4 5 show ?thesis by blast
qed


theorem export_requests_rejected_witness:
  "submitEmail_click (\<lambda>a. True) (dialogs ''all'' ''all'' ''1500'')
     \<lparr>pubSelected = [(1::nat, False)], selectedPubIds = []\<rparr> = Aborted emailMaxMsg \<and>
   submitSave_click (dialogs ''all'' ''all'' ''10001'')
     \<lparr>pubSelected = [(1::nat, False)], selectedPubIds = []\<rparr> = Aborted saveMaxMsg \<and>
   submitEmail_click (\<lambda>a. True) (dialogs ''selected'' ''selected'' ''5'')
     \<lparr>pubSelected = [(1::nat, False)], selectedPubIds = []\<rparr> = Aborted emailSelectError \<and>
   submitSave_click (dialogs ''selected'' ''selected'' ''5'')
     \<lparr>pubSelected = [(1::nat, False)], selectedPubIds = []\<rparr> = Aborted saveSelectError \<and>
   submitEmail_click (\<lambda>a. True) (dialogs ''all'' ''all'' ''900'')
     \<lparr>pubSelected = [(1::nat, False)], selectedPubIds = []\<rparr> \<noteq> Aborted emailMaxMsg"
proof -
  let ?s = "\<lparr>pubSelected = [(1::nat, False)], selectedPubIds = []\<rparr>"
  have n1: "numeric_text ''1500''" "Number ''1500'' = Num 1500"
    and n2: "numeric_text ''10001''" "Number ''10001'' = Num 10001"
    by (simp_all add: numeric_text_def Number_def is_digit_def digit_val_def)
  have a: "submitEmail_click (\<lambda>a. True) (dialogs ''all'' ''all'' ''1500'') ?s = Aborted emailMaxMsg"
    using export_requests_rejected [of "dialogs ''all'' ''all'' ''1500''" 1500 "\<lambda>a. True" ?s] n1
    by simp
  have b: "submitSave_click (dialogs ''all'' ''all'' ''10001'') ?s = Aborted saveMaxMsg"
    using export_requests_rejected [of "dialogs ''all'' ''all'' ''10001''" 10001 "\<lambda>a. True" ?s] n2
    by simp
  have c: "submitEmail_click (\<lambda>a. True) (dialogs ''selected'' ''selected'' ''5'') ?s =
      Aborted emailSelectError"
    and d: "submitSave_click (dialogs ''selected'' ''selected'' ''5'') ?s = Aborted saveSelectError"
    using export_requests_rejected [of "dialogs ''selected'' ''selected'' ''5''" 0 "\<lambda>a. True" ?s]
    by simp_all
  have e: "submitEmail_click (\<lambda>a. True) (dialogs ''all'' ''all'' ''900'') ?s \<noteq> Aborted emailMaxMsg"
    using export_requests_rejected [of "dialogs ''all'' ''all'' ''900''" 0 "\<lambda>a. True" ?s]
    by simp
  from a b c d e show ?thesis by blast
qed

end
